theory Spec2Isabelle
  imports Complex_Main "HOL-Library.Sublist" "HOL-Library.AList"
begin

section \<open>JavaScript strings\<close>

text \<open>
  A JavaScript string is a sequence of UTF-16 code units. The model is \<^typ>\<open>string\<close>:
  the code units below 256, one \<^typ>\<open>char\<close> each, so that \<open>length\<close> counts what
  \<^verbatim>\<open>.length\<close> counts. On these code units the white space of
  \<^verbatim>\<open>String.prototype.trim\<close> and of the regular-expression class \<^verbatim>\<open>\s\<close> is
  TAB, LF, VT, FF, CR, SPACE and NBSP.
\<close>

abbreviation nl :: char where
  "nl \<equiv> CHR 0x0A"

definition isWhiteSpace :: "char \<Rightarrow> bool" where
  "isWhiteSpace c \<longleftrightarrow>
     c \<in> {CHR 0x09, CHR 0x0A, CHR 0x0B, CHR 0x0C, CHR 0x0D, CHR 0x20, CHR 0xA0}"

text \<open>\<^verbatim>\<open>s.trim()\<close>\<close>

definition trim :: "string \<Rightarrow> string" where
  "trim s = rev (dropWhile isWhiteSpace (rev (dropWhile isWhiteSpace s)))"

text \<open>\<^verbatim>\<open>a || b\<close> on strings: the empty string is the only falsy string.\<close>

definition or_else :: "string \<Rightarrow> string \<Rightarrow> string" where
  "or_else a b = (if a = [] then b else a)"

text \<open>\<^verbatim>\<open>s.replace(pat, rep)\<close> with a string pattern: the first occurrence only.\<close>

fun replace_first :: "string \<Rightarrow> string \<Rightarrow> string \<Rightarrow> string" where
  "replace_first pat rep [] = (if pat = [] then rep else [])"
| "replace_first pat rep (c # cs) =
     (if prefix pat (c # cs) then rep @ drop (length pat) (c # cs)
      else c # replace_first pat rep cs)"

text \<open>\<^verbatim>\<open>s.split(sep)\<close> with a separator of one code unit: never the empty list.\<close>

fun js_split :: "char \<Rightarrow> string \<Rightarrow> string list" where
  "js_split sep [] = [[]]"
| "js_split sep (c # cs) =
     (if c = sep then [] # js_split sep cs
      else (case js_split sep cs of [] \<Rightarrow> [[c]] | l # ls \<Rightarrow> (c # l) # ls))"

text \<open>\<^verbatim>\<open>xs.join(sep)\<close>\<close>

fun js_join :: "string \<Rightarrow> string list \<Rightarrow> string" where
  "js_join sep [] = []"
| "js_join sep [x] = x"
| "js_join sep (x # y # zs) = x @ sep @ js_join sep (y # zs)"

text \<open>\<^verbatim>\<open>hay.includes(needle)\<close>: a search for the needle at every position.\<close>

fun js_includes :: "string \<Rightarrow> string \<Rightarrow> bool" where
  "js_includes [] needle \<longleftrightarrow> needle = []"
| "js_includes (c # cs) needle \<longleftrightarrow> prefix needle (c # cs) \<or> js_includes cs needle"

text \<open>
  \<^verbatim>\<open>s.toLowerCase()\<close> on the code units below 256: \<open>A\<close> to \<open>Z\<close> and the Latin-1
  capitals \<open>0xC0\<close> to \<open>0xDE\<close> (the multiplication sign \<open>0xD7\<close> apart) move up by 32.
\<close>

definition lowerChar :: "char \<Rightarrow> char" where
  "lowerChar c =
     (let n = (of_char c :: nat)
      in if (65 \<le> n \<and> n \<le> 90) \<or> (192 \<le> n \<and> n \<le> 222 \<and> n \<noteq> 215)
         then char_of (n + 32) else c)"

definition toLowerCase :: "string \<Rightarrow> string" where
  "toLowerCase s = map lowerChar s"

text \<open>
  \<^verbatim>\<open>s.replace(/\s+\n/g, "\n")\<close>. At a position that holds white space, the greedy
  \<^verbatim>\<open>\s+\<close> takes the whole run of white space and gives back until a line feed follows:
  the match ends at the last line feed of the run that is not its first code unit.
  \<open>upToLastNewline\<close> is the part of the rest of the run that the match takes; the scan goes
  on behind the match, and one code unit further where there is none.
\<close>

definition upToLastNewline :: "string \<Rightarrow> string" where
  "upToLastNewline run = rev (dropWhile (\<lambda>c. c \<noteq> nl) (rev run))"

function replaceSpaceNewline :: "string \<Rightarrow> string" where
  "replaceSpaceNewline [] = []"
| "replaceSpaceNewline (c # cs) =
     (if isWhiteSpace c \<and> upToLastNewline (takeWhile isWhiteSpace cs) \<noteq> []
      then nl # replaceSpaceNewline
                  (drop (length (upToLastNewline (takeWhile isWhiteSpace cs))) cs)
      else c # replaceSpaceNewline cs)"
  by pat_completeness auto
termination
  by (relation "measure length") auto

text \<open>
  \<^verbatim>\<open>s.replace(/\n{3,}/g, "\n\n")\<close>: a run of three or more line feeds, taken whole,
  becomes two.
\<close>

function replaceNewlines :: "string \<Rightarrow> string" where
  "replaceNewlines [] = []"
| "replaceNewlines (c # cs) =
     (if c = nl \<and> 2 \<le> length (takeWhile (\<lambda>d. d = nl) cs)
      then nl # nl # replaceNewlines (dropWhile (\<lambda>d. d = nl) cs)
      else c # replaceNewlines cs)"
  by pat_completeness auto
termination
  by (relation "measure length") (auto simp: less_Suc_eq_le length_dropWhile_le)

text \<open>\<^verbatim>\<open>String(n)\<close> for an integer, and \<^verbatim>\<open>s.padStart(2, "0")\<close>.\<close>

fun digits :: "nat \<Rightarrow> string" where
  "digits n = (if n < 10 then [char_of (48 + n)] else digits (n div 10) @ [char_of (48 + n mod 10)])"

declare digits.simps [simp del]

definition String_of_int :: "int \<Rightarrow> string" where
  "String_of_int i = (if i < 0 then CHR ''-'' # digits (nat (- i)) else digits (nat i))"

definition padStart2 :: "string \<Rightarrow> string" where
  "padStart2 s = replicate (2 - length s) (CHR ''0'') @ s"

section \<open>The data model of \<^verbatim>\<open>src/app/page.tsx\<close>\<close>

text \<open>
  The types \<^verbatim>\<open>MemoryEntry\<close>, \<^verbatim>\<open>PlacedImage\<close> and \<^verbatim>\<open>StickyNote\<close>. A field
  marked \<^verbatim>\<open>?\<close> in the source is an option. Numbers that are timestamps are
  \<^typ>\<open>int\<close>; coordinates and widths are \<^typ>\<open>real\<close> (the idealisation of the
  finite doubles, without rounding error, NaN or infinities).
\<close>

record Badge =
  label :: string
  icon :: string
  tone :: string

record Sticker = Badge +
  tilt :: string

record EntryImage =
  src :: string

record EntryNote =
  enote_text :: string
  enote_x :: real
  enote_y :: real

record MemoryEntry =
  entry_id :: int
  entry_title :: string
  entry_content :: string
  dateLabel :: string
  badges :: "Badge list"
  images :: "EntryImage list option"
  entry_notes :: "EntryNote list option"
  sticker :: "Sticker option"

record PlacedImage =
  image_id :: int
  image_src :: string
  image_x :: real
  image_y :: real
  image_width :: real

record StickyNote =
  note_id :: int
  note_text :: string
  note_x :: real
  note_y :: real
  note_width :: real

text \<open>
  The state cells of the component \<^verbatim>\<open>Home\<close> (\<^verbatim>\<open>useState\<close>) and its two drag-offset
  refs, as one record that every handler takes and returns.
\<close>

record offset =
  off_x :: real
  off_y :: real

record app =
  title :: string
  content :: string
  query :: string
  entries :: "MemoryEntry list"
  mood :: string
  placedImages :: "PlacedImage list"
  stickyNotes :: "StickyNote list"
  draggingImageId :: "int option"
  draggingNoteId :: "int option"
  openEntry :: "MemoryEntry option"
  selectedDateKey :: "string option"
  isEditingEntry :: bool
  editingTitle :: string
  editingContent :: string
  dragOffsetRef :: offset
  noteDragOffsetRef :: offset

section \<open>Editing an entry in place: \<^verbatim>\<open>saveOpenEntryEdits\<close>\<close>

definition saveOpenEntryEdits :: "app \<Rightarrow> app" where
  "saveOpenEntryEdits s =
     (case openEntry s of
        None \<Rightarrow> s
      | Some oe \<Rightarrow>
          let nextTitle = or_else (trim (editingTitle s)) ''Untitled memory'';
              nextContent = or_else (trim (editingContent s)) ''No notes added.''
          in s\<lparr>entries :=
                 map (\<lambda>entry. if entry_id entry = entry_id oe
                                then entry\<lparr>entry_title := nextTitle, entry_content := nextContent\<rparr>
                                else entry)
                     (entries s),
               openEntry :=
                 (case openEntry s of
                    None \<Rightarrow> None
                  | Some prev \<Rightarrow>
                      if entry_id prev = entry_id oe
                      then Some (prev\<lparr>entry_title := nextTitle, entry_content := nextContent\<rparr>)
                      else Some prev),
               isEditingEntry := False\<rparr>)"

section \<open>The composer: \<^verbatim>\<open>appendToken\<close>, \<^verbatim>\<open>addStickyNote\<close>, \<^verbatim>\<open>handleSubmit\<close>\<close>

definition appendToken :: "string \<Rightarrow> app \<Rightarrow> app" where
  "appendToken token s =
     s\<lparr>content :=
         (let prev = content s;
              spacer = (if (prev \<noteq> [] \<and> last prev = nl) \<or> length prev = 0 then [] else '' '')
          in prev @ spacer @ token)\<rparr>"

definition resetComposer :: "app \<Rightarrow> app" where
  "resetComposer s = s\<lparr>title := [], content := [], placedImages := [], stickyNotes := []\<rparr>"

text \<open>
  The click on a mood sticker: \<^verbatim>\<open>setMood(`Feeling ${sticker.title}`)\<close>, then
  \<^verbatim>\<open>appendToken(sticker.token)\<close>. The state cell \<open>mood\<close> starts as \<open>Feeling Good\<close>.
\<close>

definition selectMoodSticker :: "string \<Rightarrow> string \<Rightarrow> app \<Rightarrow> app" where
  "selectMoodSticker sticker_title sticker_token s =
     appendToken sticker_token (s\<lparr>mood := ''Feeling '' @ sticker_title\<rparr>)"

text \<open>\<open>date_now\<close> is the reading of \<^verbatim>\<open>Date.now()\<close>.\<close>

definition addStickyNote :: "int \<Rightarrow> app \<Rightarrow> app" where
  "addStickyNote date_now s =
     (let offset = real (length (stickyNotes s)) * 14
      in s\<lparr>stickyNotes := stickyNotes s @
              [\<lparr>note_id = date_now, note_text = ''New sticky note...'',
                note_x = 26 + offset, note_y = 84 + offset, note_width = 180\<rparr>]\<rparr>)"

definition updateStickyNoteText :: "int \<Rightarrow> string \<Rightarrow> app \<Rightarrow> app" where
  "updateStickyNoteText i t s =
     s\<lparr>stickyNotes := map (\<lambda>note. if note_id note = i then note\<lparr>note_text := t\<rparr> else note)
                           (stickyNotes s)\<rparr>"

text \<open>
  The object \<^verbatim>\<open>newEntry\<close> of \<^verbatim>\<open>handleSubmit\<close>. \<open>date_now\<close> is the reading of
  \<^verbatim>\<open>Date.now()\<close> and \<open>entryDateLabel\<close> the value of
  \<^verbatim>\<open>formatDateLabel(new Date())\<close>, both taken from the environment.
\<close>

definition composedEntry :: "int \<Rightarrow> string \<Rightarrow> app \<Rightarrow> MemoryEntry" where
  "composedEntry date_now entryDateLabel s =
     \<lparr>entry_id = date_now,
      entry_title = or_else (trim (title s)) ''Untitled memory'',
      entry_content = or_else (trim (content s)) ''No notes added.'',
      dateLabel = entryDateLabel,
      badges =
        [\<lparr>label = or_else (replace_first ''Feeling '' [] (mood s)) ''Mood'', icon = ''mood'',
          tone = ''bg-blue-50 text-blue-700 border border-blue-200/80''\<rparr>,
         \<lparr>label = ''Journal'', icon = ''auto_stories'',
          tone = ''bg-slate-100 text-slate-700 border border-slate-200/90''\<rparr>],
      images = Some (map (\<lambda>image. \<lparr>src = image_src image\<rparr>) (placedImages s)),
      entry_notes =
        Some (filter (\<lambda>note. length (enote_text note) > 0)
               (map (\<lambda>note. \<lparr>enote_text = trim (note_text note), enote_x = note_x note,
                              enote_y = note_y note\<rparr>)
                    (stickyNotes s))),
      sticker =
        Some \<lparr>label = ''New'', icon = ''fiber_new'', tone = ''bg-emerald-100 text-emerald-700'',
              tilt = ''rotate-3''\<rparr>\<rparr>"

definition handleSubmit :: "int \<Rightarrow> string \<Rightarrow> app \<Rightarrow> app" where
  "handleSubmit date_now entryDateLabel s =
     (if trim (title s) = [] \<and> trim (content s) = [] \<and>
         length (placedImages s) = 0 \<and> length (stickyNotes s) = 0
      then s
      else resetComposer
             (s\<lparr>entries := composedEntry date_now entryDateLabel s # entries s, query := []\<rparr>))"

section \<open>The scan pipeline: \<^verbatim>\<open>getScannedTitle\<close>, \<^verbatim>\<open>buildScannedTemplate\<close>, \<^verbatim>\<open>createScannedEntry\<close>\<close>

definition getScannedTitle :: "string \<Rightarrow> string" where
  "getScannedTitle text =
     (let firstLine =
            (case find (\<lambda>line. length line > 0) (map trim (js_split nl text)) of
               None \<Rightarrow> [] | Some line \<Rightarrow> line)
      in if firstLine = [] then ''Scanned Memory''
         else if length firstLine > 64 then trim (take 64 firstLine) @ ''...''
         else firstLine)"

definition cleanedText :: "string \<Rightarrow> string" where
  "cleanedText rawText = trim (replaceNewlines (replaceSpaceNewline rawText))"

definition scannedLines :: "string \<Rightarrow> string list" where
  "scannedLines rawText =
     filter (\<lambda>line. length line > 0) (map trim (js_split nl (cleanedText rawText)))"

record template =
  template_title :: string
  template_content :: string

definition buildScannedTemplate :: "string \<Rightarrow> template" where
  "buildScannedTemplate rawText =
     (let lines = scannedLines rawText;
          summary = js_join '' '' (take 2 lines);
          highlights = take 5 lines
      in \<lparr>template_title = getScannedTitle (cleanedText rawText),
          template_content =
            js_join [nl]
              ([''SCANNED JOURNAL'', [], ''Summary:'',
                or_else summary ''No clear summary detected from the image.'',
                [], ''Highlights:''] @
               (if length highlights > 0 then map (\<lambda>line. ''- '' @ line) highlights
                else [''- No highlights detected.'']) @
               [[], ''Extracted Text:'',
                or_else (cleanedText rawText) ''No readable text found in this image.''])\<rparr>)"

text \<open>
  The object \<^verbatim>\<open>newEntry\<close> of \<^verbatim>\<open>createScannedEntry\<close>. \<open>entryTime\<close> is
  \<^verbatim>\<open>entryDate.getTime()\<close> and \<open>entryDateLabel\<close> is \<^verbatim>\<open>formatDateLabel(entryDate)\<close>
  for the \<^verbatim>\<open>new Date()\<close> of the call.
\<close>

definition scannedEntry :: "string \<Rightarrow> string \<Rightarrow> int \<Rightarrow> string \<Rightarrow> MemoryEntry" where
  "scannedEntry rawText imageSrc entryTime entryDateLabel =
     (let template = buildScannedTemplate rawText
      in \<lparr>entry_id = entryTime,
          entry_title = template_title template,
          entry_content = template_content template,
          dateLabel = entryDateLabel,
          badges =
            [\<lparr>label = ''Scanned'', icon = ''document_scanner'',
              tone = ''bg-violet-50 text-violet-700 border border-violet-200/80''\<rparr>,
             \<lparr>label = ''Journal'', icon = ''auto_stories'',
              tone = ''bg-slate-100 text-slate-700 border border-slate-200/90''\<rparr>],
          images = (if imageSrc \<noteq> [] then Some [\<lparr>src = imageSrc\<rparr>] else None),
          entry_notes = None,
          sticker =
            Some \<lparr>label = ''Auto'', icon = ''auto_awesome'', tone = ''bg-cyan-100 text-cyan-700'',
                  tilt = ''-rotate-2''\<rparr>\<rparr>)"

definition createScannedEntry :: "string \<Rightarrow> string \<Rightarrow> int \<Rightarrow> string \<Rightarrow> app \<Rightarrow> app" where
  "createScannedEntry rawText imageSrc entryTime entryDateLabel s =
     s\<lparr>entries := scannedEntry rawText imageSrc entryTime entryDateLabel # entries s,
       query := []\<rparr>"

text \<open>
  Two properties of a text, to state what the cleaning removes: \<open>spaceBeforeNewline\<close>
  holds when a white-space character other than a line feed stands directly before a line
  feed (a trailing space of a line), \<open>whiteSpaceBeforeNewline\<close> when any white-space
  character does.
\<close>

fun whiteSpaceBeforeNewline :: "string \<Rightarrow> bool" where
  "whiteSpaceBeforeNewline (a # b # cs) \<longleftrightarrow>
     (isWhiteSpace a \<and> b = nl) \<or> whiteSpaceBeforeNewline (b # cs)"
| "whiteSpaceBeforeNewline _ \<longleftrightarrow> False"

fun spaceBeforeNewline :: "string \<Rightarrow> bool" where
  "spaceBeforeNewline (a # b # cs) \<longleftrightarrow>
     (isWhiteSpace a \<and> a \<noteq> nl \<and> b = nl) \<or> spaceBeforeNewline (b # cs)"
| "spaceBeforeNewline _ \<longleftrightarrow> False"

text \<open>The raw text of the scan scenario, and a first line with a space at position 64.\<close>

definition lakeText :: string where
  "lakeText = ''Trip to the lake'' @ [nl] @ ''Saw a heron'' @ [nl, nl, nl] @ ''Great day''"

definition longLine :: string where
  "longLine = replicate 63 (CHR ''a'') @ '' b''"

section \<open>Dragging on the canvas: the two \<^verbatim>\<open>onPointerMove\<close> handlers\<close>

text \<open>
  \<open>canvas\<close> is \<^verbatim>\<open>canvasRef.current\<close> read through \<^verbatim>\<open>getBoundingClientRect()\<close>
  (\<open>None\<close> when the ref is empty). The handler is installed only while the dragging id is
  set. \<^verbatim>\<open>Math.round\<close> rounds to the nearest integer, a half upwards.
\<close>

record DOMRect =
  rect_left :: real
  rect_top :: real
  rect_width :: real
  rect_height :: real

record PointerEvent =
  clientX :: real
  clientY :: real

definition Math_round :: "real \<Rightarrow> real" where
  "Math_round v = of_int \<lfloor>v + 1 / 2\<rfloor>"

definition onPointerMoveImage :: "DOMRect option \<Rightarrow> PointerEvent \<Rightarrow> app \<Rightarrow> app" where
  "onPointerMoveImage canvas event s =
     (case draggingImageId s of
        None \<Rightarrow> s
      | Some dragId \<Rightarrow>
          (case canvas of
             None \<Rightarrow> s
           | Some rect \<Rightarrow>
               (case find (\<lambda>image. image_id image = dragId) (placedImages s) of
                  None \<Rightarrow> s
                | Some active \<Rightarrow>
                    let imageHeight = Math_round (image_width active * 0.75);
                        nextX = min (max (clientX event - rect_left rect - off_x (dragOffsetRef s)) 0)
                                    (max (rect_width rect - image_width active) 0);
                        nextY = min (max (clientY event - rect_top rect - off_y (dragOffsetRef s)) 0)
                                    (max (rect_height rect - imageHeight) 0)
                    in s\<lparr>placedImages :=
                           map (\<lambda>image. if image_id image = dragId
                                          then image\<lparr>image_x := nextX, image_y := nextY\<rparr>
                                          else image)
                               (placedImages s)\<rparr>)))"


section \<open>Browsing: \<^verbatim>\<open>parseDateLabel\<close>, \<^verbatim>\<open>toDateKey\<close>, \<^verbatim>\<open>filteredEntries\<close>\<close>

text \<open>
  A \<^verbatim>\<open>Date\<close> object, as far as the code reads it: its time value (\<open>None\<close> for the
  \<^verbatim>\<open>NaN\<close> of an invalid date) and its calendar fields in local time, the month counted
  from 0. How \<^verbatim>\<open>new Date(label)\<close> reads a label is the runtime's affair: it is the
  parameter \<open>new_Date\<close>.
\<close>

record jsdate =
  getTime :: "int option"
  getFullYear :: int
  getMonth :: nat
  getDate :: nat

definition parseDateLabel :: "(string \<Rightarrow> jsdate) \<Rightarrow> string \<Rightarrow> jsdate option" where
  "parseDateLabel new_Date lbl =
     (let parsed = new_Date lbl in if getTime parsed = None then None else Some parsed)"

definition toDateKey :: "jsdate \<Rightarrow> string" where
  "toDateKey date =
     (let year = getFullYear date;
          month = padStart2 (digits (getMonth date + 1));
          day = padStart2 (digits (getDate date))
      in String_of_int year @ ''-'' @ month @ ''-'' @ day)"

definition filteredEntries :: "(string \<Rightarrow> jsdate) \<Rightarrow> app \<Rightarrow> MemoryEntry list" where
  "filteredEntries new_Date s =
     (let normalized = toLowerCase (trim (query s))
      in filter
           (\<lambda>entry.
              let entryDate = parseDateLabel new_Date (dateLabel entry);
                  matchesDate =
                    (case selectedDateKey s of
                       None \<Rightarrow> True
                     | Some key \<Rightarrow>
                         if key = [] then True
                         else (case entryDate of None \<Rightarrow> False | Some d \<Rightarrow> toDateKey d = key))
              in if \<not> matchesDate then False
                 else if normalized = [] then True
                 else js_includes (toLowerCase (entry_title entry)) normalized \<or>
                      js_includes (toLowerCase (entry_content entry)) normalized \<or>
                      list_ex (\<lambda>badge. js_includes (toLowerCase (label badge)) normalized)
                        (badges entry))
           (entries s))"

text \<open>
  The click on a day of the calendar grid, whose \<^verbatim>\<open>dateKey\<close> is \<^verbatim>\<open>toDateKey(date)\<close>:
  it selects the day, or clears the selection when the day was selected. The blank cells
  of the grid (with the empty key) are not buttons.
\<close>

definition clickCalendarDay :: "jsdate \<Rightarrow> app \<Rightarrow> app" where
  "clickCalendarDay date s =
     s\<lparr>selectedDateKey :=
         (if selectedDateKey s = Some (toDateKey date) then None else Some (toDateKey date))\<rparr>"

section \<open>The OCR route: \<^verbatim>\<open>extractText\<close>, \<^verbatim>\<open>callGemini\<close>, \<^verbatim>\<open>POST\<close>\<close>

text \<open>
  The declared types of the provider's payloads; an optional field is an option.
\<close>

record GeminiPart =
  part_text :: "string option"

record GeminiContent =
  parts :: "GeminiPart list option"

record GeminiCandidate =
  candidate_content :: "GeminiContent option"

record GeminiResponse =
  candidates :: "GeminiCandidate list option"

record GeminiError =
  error_message :: "string option"

record GeminiErrorResponse =
  gemini_error :: "GeminiError option"

definition extractText :: "GeminiResponse \<Rightarrow> string" where
  "extractText payload =
     (let first = (case candidates payload of
                     None \<Rightarrow> None
                   | Some cs \<Rightarrow> (case cs of [] \<Rightarrow> None | c # _ \<Rightarrow> Some c));
          parts = (case first of
                     None \<Rightarrow> []
                   | Some c \<Rightarrow>
                       (case candidate_content c of
                          None \<Rightarrow> []
                        | Some ct \<Rightarrow> (case parts ct of None \<Rightarrow> [] | Some ps \<Rightarrow> ps)))
      in trim (js_join [nl]
                 (map (\<lambda>part. case part_text part of None \<Rightarrow> [] | Some t \<Rightarrow> t) parts)))"

text \<open>
  The provider is reached through \<^verbatim>\<open>fetch\<close>, a parameter of the model: it answers a
  request with a response (its \<^verbatim>\<open>ok\<close> flag and its body) or rejects. The readers of a
  body are parameters as well: \<open>decodePayload\<close> is \<^verbatim>\<open>response.json()\<close> at the type
  \<^verbatim>\<open>GeminiResponse\<close> (\<open>None\<close> when it rejects), and \<open>decodeError\<close> is
  \<^verbatim>\<open>JSON.parse(raw)\<close> at the type \<^verbatim>\<open>GeminiErrorResponse\<close> (\<open>None\<close> when it throws, or
  when reading \<^verbatim>\<open>parsed.error\<close> throws because the parsed value is \<^verbatim>\<open>null\<close>: the
  \<^verbatim>\<open>catch\<close> block serves both).
\<close>

record FetchRequest =
  req_url :: string
  req_prompt :: string
  req_mimeType :: string
  req_data :: string

record FetchResponse =
  resp_ok :: bool
  resp_body :: string

datatype fetch_outcome = FetchRejected | Fetched FetchResponse

definition callGemini ::
  "(FetchRequest \<Rightarrow> fetch_outcome) \<Rightarrow> string \<Rightarrow> string \<Rightarrow> string \<Rightarrow> string \<Rightarrow> fetch_outcome" where
  "callGemini fetch apiKey model mimeType base64 =
     fetch \<lparr>req_url = ''https://generativelanguage.googleapis.com/v1beta/models/'' @ model @
                        '':generateContent?key='' @ apiKey,
            req_prompt = ''Extract all readable text from this image. Return plain text only. Keep line breaks where possible.'',
            req_mimeType = mimeType,
            req_data = base64\<rparr>"

text \<open>
  The request body, as \<^verbatim>\<open>request.json()\<close> gives it: a rejection, \<^verbatim>\<open>null\<close>, or an
  object with the two optional fields. The reply of the route is a status and a JSON body
  of one of three shapes; an exception that leaves \<^verbatim>\<open>POST\<close> is the error \<open>Thrown\<close>.
  Beside its reply the model returns the models it called the provider with, in order.
\<close>

record OcrBody =
  mimeType :: "string option"
  base64 :: "string option"

datatype request_json = JsonRejected | JsonNull | JsonBody OcrBody

datatype reply_body =
  ErrorBody string
| ErrorDetailsBody string "string option"
| TextBody string

record NextResponse =
  status :: nat
  json_body :: reply_body

datatype route_error = Thrown

definition models :: "string list" where
  "models = [''gemini-2.5-flash'', ''gemini-2.0-flash'', ''gemini-flash-latest'']"

text \<open>The value the loop stores in \<^verbatim>\<open>lastError\<close> for a failure body.\<close>

definition errorMessageOf :: "(string \<Rightarrow> GeminiErrorResponse option) \<Rightarrow> string \<Rightarrow> string" where
  "errorMessageOf decodeError raw =
     (case decodeError raw of
        None \<Rightarrow> raw
      | Some parsed \<Rightarrow>
          (case gemini_error parsed of
             None \<Rightarrow> raw
           | Some e \<Rightarrow> (case error_message e of None \<Rightarrow> raw | Some m \<Rightarrow> m)))"

text \<open>The loop \<^verbatim>\<open>for (const model of models)\<close> with the return behind it.\<close>

fun tryModels ::
  "(FetchRequest \<Rightarrow> fetch_outcome) \<Rightarrow> (string \<Rightarrow> GeminiResponse option) \<Rightarrow>
   (string \<Rightarrow> GeminiErrorResponse option) \<Rightarrow> string \<Rightarrow> string \<Rightarrow> string \<Rightarrow>
   string list \<Rightarrow> string option \<Rightarrow> (route_error + NextResponse) \<times> string list" where
  "tryModels fetch decodePayload decodeError apiKey mime data [] lastError =
     (Inr \<lparr>status = 502,
           json_body = ErrorDetailsBody ''Gemini OCR request failed.'' lastError\<rparr>, [])"
| "tryModels fetch decodePayload decodeError apiKey mime data (model # rest) lastError =
     (case callGemini fetch apiKey model mime data of
        FetchRejected \<Rightarrow> (Inl Thrown, [model])
      | Fetched response \<Rightarrow>
          if \<not> resp_ok response
          then (let (reply, called) =
                      tryModels fetch decodePayload decodeError apiKey mime data rest
                        (Some (errorMessageOf decodeError (resp_body response)))
                in (reply, model # called))
          else (case decodePayload (resp_body response) of
                  None \<Rightarrow> (Inl Thrown, [model])
                | Some payload \<Rightarrow>
                    (Inr \<lparr>status = 200, json_body = TextBody (extractText payload)\<rparr>, [model])))"

text \<open>
  \<^verbatim>\<open>POST\<close>. \<^verbatim>\<open>!x\<close> holds for an optional string that is undefined or empty. The
  key is checked before the request body is read.
\<close>

definition POST ::
  "string option \<Rightarrow> request_json \<Rightarrow> (FetchRequest \<Rightarrow> fetch_outcome) \<Rightarrow>
   (string \<Rightarrow> GeminiResponse option) \<Rightarrow> (string \<Rightarrow> GeminiErrorResponse option) \<Rightarrow>
   (route_error + NextResponse) \<times> string list" where
  "POST GEMINI_API_KEY request fetch decodePayload decodeError =
     (let missingKey =
            (Inr \<lparr>status = 500,
                  json_body = ErrorBody ''Missing GEMINI_API_KEY in environment.''\<rparr>, []);
          required =
            (Inr \<lparr>status = 400, json_body = ErrorBody ''mimeType and base64 are required.''\<rparr>, [])
      in case GEMINI_API_KEY of
           None \<Rightarrow> missingKey
         | Some apiKey \<Rightarrow>
             if apiKey = [] then missingKey
             else (case request of
                     JsonRejected \<Rightarrow> (Inl Thrown, [])
                   | JsonNull \<Rightarrow> required
                   | JsonBody body \<Rightarrow>
                       (case mimeType body of
                          None \<Rightarrow> required
                        | Some mime \<Rightarrow>
                            (case base64 body of
                               None \<Rightarrow> required
                             | Some data \<Rightarrow>
                                 if mime = [] \<or> data = [] then required
                                 else tryModels fetch decodePayload decodeError
                                        apiKey mime data models None))))"

text \<open>A provider, a failure body with a message, and a payload with two candidates.\<close>

definition sampleError :: "string \<Rightarrow> GeminiErrorResponse option" where
  "sampleError raw =
     (if raw = ''{\"error\":{\"message\":\"quota\"}}''
      then Some \<lparr>gemini_error = Some \<lparr>error_message = Some ''quota''\<rparr>\<rparr>
      else None)"

definition twoCandidates :: GeminiResponse where
  "twoCandidates =
     \<lparr>candidates =
        Some [\<lparr>candidate_content =
                 Some \<lparr>parts = Some [\<lparr>part_text = Some ''first ''\<rparr>, \<lparr>part_text = None\<rparr>,
                                       \<lparr>part_text = Some ''page''\<rparr>]\<rparr>\<rparr>,
              \<lparr>candidate_content = Some \<lparr>parts = Some [\<lparr>part_text = Some ''second''\<rparr>]\<rparr>\<rparr>]\<rparr>"

definition samplePayload :: "string \<Rightarrow> GeminiResponse option" where
  "samplePayload raw = (if raw = ''two'' then Some twoCandidates else None)"


definition secondFetch :: "FetchRequest \<Rightarrow> fetch_outcome" where
  "secondFetch req =
     (if req_url req =
           ''https://generativelanguage.googleapis.com/v1beta/models/gemini-2.0-flash:generateContent?key=k''
      then Fetched \<lparr>resp_ok = True, resp_body = ''two''\<rparr>
      else Fetched \<lparr>resp_ok = False, resp_body = ''overloaded''\<rparr>)"


definition sampleRequest :: request_json where
  "sampleRequest = JsonBody \<lparr>mimeType = Some ''image/png'', base64 = Some ''AAAA''\<rparr>"

section \<open>Persistence: \<^verbatim>\<open>readStoredEntries\<close> and the effect that saves the entries\<close>





















section \<open>Sequences of user actions on the entry store\<close>

text \<open>
  The two operations that append to the store are a submission of the composer and the
  commit of a scan; the other events edit the draft between them. \<open>appended\<close> is the
  entry an event creates in a state (none when the submission is rejected), and \<open>created\<close>
  lists the entries a sequence of events creates, oldest first.
\<close>

datatype event =
  SetTitle string
| SetContent string
| SelectMoodSticker string string
| AddStickyNote int
| UpdateStickyNoteText int string
| Submit int string
| ScanCommit string string int string

fun step :: "event \<Rightarrow> app \<Rightarrow> app" where
  "step (SetTitle t) s = s\<lparr>title := t\<rparr>"
| "step (SetContent c) s = s\<lparr>content := c\<rparr>"
| "step (SelectMoodSticker t k) s = selectMoodSticker t k s"
| "step (AddStickyNote n) s = addStickyNote n s"
| "step (UpdateStickyNoteText i t) s = updateStickyNoteText i t s"
| "step (Submit n l) s = handleSubmit n l s"
| "step (ScanCommit raw img n l) s = createScannedEntry raw img n l s"

fun run :: "event list \<Rightarrow> app \<Rightarrow> app" where
  "run [] s = s"
| "run (e # es) s = run es (step e s)"

fun appended :: "event \<Rightarrow> app \<Rightarrow> MemoryEntry list" where
  "appended (Submit n l) s =
     (if trim (title s) = [] \<and> trim (content s) = [] \<and> placedImages s = [] \<and> stickyNotes s = []
      then [] else [composedEntry n l s])"
| "appended (ScanCommit raw img n l) s = [scannedEntry raw img n l]"
| "appended _ s = []"

fun created :: "event list \<Rightarrow> app \<Rightarrow> MemoryEntry list" where
  "created [] s = []"
| "created (e # es) s = appended e s @ created es (step e s)"

section \<open>The canvas: starting and ending a drag, removing an element\<close>










text \<open>An application state used to run the handlers on concrete inputs.\<close>

definition sampleEntry :: "int \<Rightarrow> string \<Rightarrow> string \<Rightarrow> MemoryEntry" where
  "sampleEntry i t c =
     \<lparr>entry_id = i, entry_title = t, entry_content = c, dateLabel = ''Jan 5, 2024'',
      badges = [\<lparr>label = ''Gym'', icon = ''fitness_center'', tone = ''text-orange-500''\<rparr>],
      images = None, entry_notes = None, sticker = None\<rparr>"

definition initialApp :: "MemoryEntry list \<Rightarrow> app" where
  "initialApp es =
     \<lparr>title = [], content = [], query = [], entries = es, mood = ''Feeling Good'',
      placedImages = [], stickyNotes = [], draggingImageId = None, draggingNoteId = None,
      openEntry = None, selectedDateKey = None, isEditingEntry = False,
      editingTitle = [], editingContent = [],
      dragOffsetRef = \<lparr>off_x = 0, off_y = 0\<rparr>, noteDragOffsetRef = \<lparr>off_x = 0, off_y = 0\<rparr>\<rparr>"


text \<open>
  A reading of two date labels, and four entries, to run the filter on. Any other label
  reads as an invalid date (no time value), here with calendar fields that would match
  the selected day if they were compared.
\<close>

definition sampleNewDate :: "string \<Rightarrow> jsdate" where
  "sampleNewDate lbl =
     (if lbl = ''Jan 5, 2024''
      then \<lparr>getTime = Some 1704412800000, getFullYear = 2024, getMonth = 0, getDate = 5\<rparr>
      else if lbl = ''Feb 10, 2024''
      then \<lparr>getTime = Some 1707523200000, getFullYear = 2024, getMonth = 1, getDate = 10\<rparr>
      else \<lparr>getTime = None, getFullYear = 2024, getMonth = 0, getDate = 5\<rparr>)"

definition sampleBrowse :: app where
  "sampleBrowse =
     (initialApp
        [sampleEntry 1 ''Leg day'' ''Squats'',
         (sampleEntry 2 ''Gym again'' ''Bench'')\<lparr>dateLabel := ''Feb 10, 2024''\<rparr>,
         (sampleEntry 3 ''Gym someday'' ''Plans'')\<lparr>dateLabel := ''someday''\<rparr>,
         (sampleEntry 4 ''Lake'' ''Heron'')\<lparr>badges := []\<rparr>])
       \<lparr>query := '' GYM '', selectedDateKey := Some ''2024-01-05''\<rparr>"

section \<open>Facts about strings\<close>

lemma or_else_nonempty: "b \<noteq> [] \<Longrightarrow> or_else a b \<noteq> []"
  by (simp add: or_else_def)

section \<open>Facts about the composer and the entry store\<close>

lemma replace_first_prefix: "pat \<noteq> [] \<Longrightarrow> replace_first pat rep (pat @ t) = rep @ t"
  by (cases pat) auto

lemma notes_filter_map:
  "filter (\<lambda>note. enote_text note \<noteq> [])
      (map (\<lambda>note. \<lparr>enote_text = trim (note_text note), enote_x = note_x note, enote_y = note_y note\<rparr>) ns)
   = map (\<lambda>note. \<lparr>enote_text = trim (note_text note), enote_x = note_x note, enote_y = note_y note\<rparr>)
       (filter (\<lambda>note. trim (note_text note) \<noteq> []) ns)"
  by (induction ns) auto

lemma handleSubmit_reject:
  "trim (title s) = [] \<Longrightarrow> trim (content s) = [] \<Longrightarrow> placedImages s = [] \<Longrightarrow> stickyNotes s = [] \<Longrightarrow>
   handleSubmit n l s = s"
  by (simp add: handleSubmit_def)

lemma handleSubmit_accept:
  "\<not> (trim (title s) = [] \<and> trim (content s) = [] \<and> placedImages s = [] \<and> stickyNotes s = []) \<Longrightarrow>
   handleSubmit n l s =
     s\<lparr>title := [], content := [], placedImages := [], stickyNotes := [],
       entries := composedEntry n l s # entries s, query := []\<rparr>"
  by (auto simp add: handleSubmit_def resetComposer_def)

text \<open>
  C1 (amended). A submission changes nothing exactly when the trimmed title and the trimmed
  content are empty and there are no placed images and no sticky notes. Otherwise it puts
  exactly one new entry in front of the store: its title is the trimmed title, or
  \<open>Untitled memory\<close> when that is empty; its content is the trimmed content, or
  \<open>No notes added.\<close> when that is empty; its images are the sources of the placed images;
  its notes are the sticky notes with trimmed text, those with empty trimmed text dropped;
  its badges are the mood badge and the \<open>Journal\<close> badge, where the label of the mood badge
  is the mood with its first \<open>Feeling \<close> removed, or \<open>Mood\<close> when nothing is left (so for a
  mood \<open>Feeling t\<close> it is \<open>t\<close>, and \<open>Good\<close> for the initial mood); and the draft title,
  content, placed images and sticky notes are reset to empty.
\<close>

theorem handleSubmit_spec:
  "(handleSubmit n l s = s \<longleftrightarrow>
      trim (title s) = [] \<and> trim (content s) = [] \<and> placedImages s = [] \<and> stickyNotes s = []) \<and>
   (\<not> (trim (title s) = [] \<and> trim (content s) = [] \<and> placedImages s = [] \<and> stickyNotes s = []) \<longrightarrow>
      (\<exists>e. entries (handleSubmit n l s) = e # entries s \<and>
         entry_title e = (if trim (title s) = [] then ''Untitled memory'' else trim (title s)) \<and>
         entry_content e = (if trim (content s) = [] then ''No notes added.'' else trim (content s)) \<and>
         images e = Some (map (\<lambda>image. \<lparr>src = image_src image\<rparr>) (placedImages s)) \<and>
         entry_notes e =
           Some (map (\<lambda>note. \<lparr>enote_text = trim (note_text note), enote_x = note_x note,
                                enote_y = note_y note\<rparr>)
                  (filter (\<lambda>note. trim (note_text note) \<noteq> []) (stickyNotes s))) \<and>
         map label (badges e) =
           [if replace_first ''Feeling '' [] (mood s) = [] then ''Mood''
            else replace_first ''Feeling '' [] (mood s), ''Journal''] \<and>
         (\<forall>t. mood s = ''Feeling '' @ t \<longrightarrow>
            map label (badges e) = [if t = [] then ''Mood'' else t, ''Journal''])) \<and>
      title (handleSubmit n l s) = [] \<and> content (handleSubmit n l s) = [] \<and>
      placedImages (handleSubmit n l s) = [] \<and> stickyNotes (handleSubmit n l s) = [])"
proof (cases "trim (title s) = [] \<and> trim (content s) = [] \<and> placedImages s = [] \<and> stickyNotes s = []")
  case True
  then show ?thesis by (simp add: handleSubmit_reject)
next
  case False
  note acc = handleSubmit_accept [OF False, of n l]
  have grows: "handleSubmit n l s \<noteq> s"
  proof
    assume "handleSubmit n l s = s"
    then have "entries (handleSubmit n l s) = entries s" by simp
    then show False by (simp add: acc)
  qed
  have mood_label: "\<forall>t. mood s = ''Feeling '' @ t \<longrightarrow>
      or_else (replace_first ''Feeling '' [] (mood s)) ''Mood'' = (if t = [] then ''Mood'' else t)"
    using replace_first_prefix [of "''Feeling ''" "[]"] by (simp add: or_else_def)
  have entry: "entries (handleSubmit n l s) = composedEntry n l s # entries s"
    by (simp add: acc)
  have fields:
    "entry_title (composedEntry n l s) = (if trim (title s) = [] then ''Untitled memory'' else trim (title s))"
    "entry_content (composedEntry n l s) = (if trim (content s) = [] then ''No notes added.'' else trim (content s))"
    "images (composedEntry n l s) = Some (map (\<lambda>image. \<lparr>src = image_src image\<rparr>) (placedImages s))"
    "entry_notes (composedEntry n l s) =
           Some (map (\<lambda>note. \<lparr>enote_text = trim (note_text note), enote_x = note_x note,
                                enote_y = note_y note\<rparr>)
                  (filter (\<lambda>note. trim (note_text note) \<noteq> []) (stickyNotes s)))"
    "map label (badges (composedEntry n l s)) =
           [if replace_first ''Feeling '' [] (mood s) = [] then ''Mood''
            else replace_first ''Feeling '' [] (mood s), ''Journal'']"
    by (simp_all add: composedEntry_def or_else_def notes_filter_map)
  have moodf: "\<forall>t. mood s = ''Feeling '' @ t \<longrightarrow>
            map label (badges (composedEntry n l s)) = [if t = [] then ''Mood'' else t, ''Journal'']"
    using mood_label by (simp add: composedEntry_def)
  have reset: "title (handleSubmit n l s) = []" "content (handleSubmit n l s) = []"
      "placedImages (handleSubmit n l s) = []" "stickyNotes (handleSubmit n l s) = []"
    by (simp_all add: acc)
  have ex: "\<exists>e. entries (handleSubmit n l s) = e # entries s \<and>
         entry_title e = (if trim (title s) = [] then ''Untitled memory'' else trim (title s)) \<and>
         entry_content e = (if trim (content s) = [] then ''No notes added.'' else trim (content s)) \<and>
         images e = Some (map (\<lambda>image. \<lparr>src = image_src image\<rparr>) (placedImages s)) \<and>
         entry_notes e =
           Some (map (\<lambda>note. \<lparr>enote_text = trim (note_text note), enote_x = note_x note,
                                enote_y = note_y note\<rparr>)
                  (filter (\<lambda>note. trim (note_text note) \<noteq> []) (stickyNotes s))) \<and>
         map label (badges e) =
           [if replace_first ''Feeling '' [] (mood s) = [] then ''Mood''
            else replace_first ''Feeling '' [] (mood s), ''Journal''] \<and>
         (\<forall>t. mood s = ''Feeling '' @ t \<longrightarrow>
            map label (badges e) = [if t = [] then ''Mood'' else t, ''Journal''])"
    using entry fields moodf by (intro exI [of _ "composedEntry n l s"] conjI)
  from grows False have iff: "(handleSubmit n l s = s) \<longleftrightarrow>
      trim (title s) = [] \<and> trim (content s) = [] \<and> placedImages s = [] \<and> stickyNotes s = []"
    by simp
  from iff ex reset show ?thesis
    by (intro conjI impI)
qed

theorem handleSubmit_spec_witness:
  "map entry_title
     (entries (handleSubmit 1704450000000 ''Jan 5, 2024'' ((initialApp [])\<lparr>title := '' Lake ''\<rparr>)))
     = [''Lake''] \<and>
   map entry_content
     (entries (handleSubmit 1704450000000 ''Jan 5, 2024'' ((initialApp [])\<lparr>title := '' Lake ''\<rparr>)))
     = [''No notes added.'']"
  using handleSubmit_spec [of 1704450000000 "''Jan 5, 2024''" "(initialApp [])\<lparr>title := '' Lake ''\<rparr>"]
  by (auto simp add: initialApp_def trim_def isWhiteSpace_def)

text \<open>
  C1 as stated fails where no mood sticker was chosen: the state cell \<open>mood\<close> starts as
  \<open>Feeling Good\<close>, so the label of the mood badge is \<open>Good\<close>, not \<open>Mood\<close>.
\<close>

theorem handleSubmit_mood_counterexample:
  "label (hd (badges (hd (entries
      (handleSubmit 1704450000000 ''Jan 5, 2024'' ((initialApp [])\<lparr>title := ''Lake''\<rparr>)))))) = ''Good'' \<and>
   label (hd (badges (hd (entries
      (handleSubmit 1704450000000 ''Jan 5, 2024'' ((initialApp [])\<lparr>title := ''Lake''\<rparr>)))))) \<noteq> ''Mood''"
  by (simp add: handleSubmit_def initialApp_def trim_def isWhiteSpace_def composedEntry_def
      resetComposer_def or_else_def)

lemma step_entries: "entries (step e s) = appended e s @ entries s"
  by (cases e)
     (auto simp: handleSubmit_def resetComposer_def createScannedEntry_def selectMoodSticker_def
        appendToken_def addStickyNote_def updateStickyNoteText_def Let_def)

lemma rev_appended: "rev (appended e s) = appended e s"
  by (cases e) auto

lemma run_entries: "entries (run evs s) = rev (created evs s) @ entries s"
  by (induction evs arbitrary: s) (simp_all add: step_entries rev_appended)

text \<open>
  C7. Every append (a submission that is not rejected, or the commit of a scan) puts the new
  entry in front: after any sequence of events the store is the entries created, newest
  first, followed by the entries that were there before, in their order; so the entry
  created last is the first of the store.
\<close>

theorem append_order:
  "entries (run evs s) = rev (created evs s) @ entries s \<and>
   (created evs s \<noteq> [] \<longrightarrow> hd (entries (run evs s)) = last (created evs s))"
  by (simp add: run_entries hd_rev)

theorem append_order_witness:
  "map entry_id
     (entries (run [SetTitle ''first'', Submit 10 ''Jan 5, 2024'', Submit 11 ''Jan 5, 2024'',
                    ScanCommit [] [] 12 ''Jan 5, 2024'', SetContent ''third'',
                    Submit 13 ''Jan 6, 2024'']
                (initialApp [sampleEntry 1 ''a'' ''b'', sampleEntry 2 ''c'' ''d''])))
   = [13, 12, 10, 1, 2]"
  using append_order
    [of "[SetTitle ''first'', Submit 10 ''Jan 5, 2024'', Submit 11 ''Jan 5, 2024'',
          ScanCommit [] [] 12 ''Jan 5, 2024'', SetContent ''third'', Submit 13 ''Jan 6, 2024'']"
        "initialApp [sampleEntry 1 ''a'' ''b'', sampleEntry 2 ''c'' ''d'']"]
  by (simp add: initialApp_def sampleEntry_def handleSubmit_def resetComposer_def
      createScannedEntry_def composedEntry_def scannedEntry_def Let_def trim_def isWhiteSpace_def)


section \<open>Facts about dragging\<close>

lemma find_map_update:
  "find (\<lambda>i. key i = d) xs = Some a \<Longrightarrow> (\<And>i. key (f i) = key i) \<Longrightarrow>
   find (\<lambda>i. key i = d) (map (\<lambda>i. if key i = d then f i else i) xs) = Some (f a)"
  by (induction xs) (auto split: if_splits)

lemma clamp_bounds:
  fixes p w c :: real
  shows "0 \<le> min (max p 0) (max (c - w) 0) \<and>
         min (max p 0) (max (c - w) 0) \<le> max (c - w) 0 \<and>
         (w \<le> c \<longrightarrow> min (max p 0) (max (c - w) 0) \<le> c - w) \<and>
         (c < w \<longrightarrow> min (max p 0) (max (c - w) 0) = 0)"
  by auto

lemma onPointerMoveImage_active:
  assumes "draggingImageId s = Some d"
      and "find (\<lambda>image. image_id image = d) (placedImages s) = Some active"
  shows "find (\<lambda>image. image_id image = d) (placedImages (onPointerMoveImage (Some rect) ev s)) =
     Some (active\<lparr>
        image_x := min (max (clientX ev - rect_left rect - off_x (dragOffsetRef s)) 0)
                       (max (rect_width rect - image_width active) 0),
        image_y := min (max (clientY ev - rect_top rect - off_y (dragOffsetRef s)) 0)
                       (max (rect_height rect - Math_round (image_width active * 0.75)) 0)\<rparr>)"
proof -
  have "find (\<lambda>image. image_id image = d)
          (map (\<lambda>image. if image_id image = d then f image else image) (placedImages s)) = Some (f active)"
    if "\<And>i. image_id (f i) = image_id i" for f
    using assms(2) that by (rule find_map_update)
  then show ?thesis
    using assms by (simp add: onPointerMoveImage_def Let_def)
qed









text \<open>
  What the image handler computes for an image, were there one: the same clamp, against the
  height \<^verbatim>\<open>Math.round(width * 0.75)\<close>.
\<close>

lemma onPointerMoveImage_clamp:
  assumes "draggingImageId s = Some d"
      and "find (\<lambda>image. image_id image = d) (placedImages s) = Some active"
  shows "\<exists>moved. find (\<lambda>image. image_id image = d)
                  (placedImages (onPointerMoveImage (Some rect) ev s)) = Some moved \<and>
         image_width moved = image_width active \<and>
         0 \<le> image_x moved \<and> image_x moved \<le> max (rect_width rect - image_width moved) 0 \<and>
         0 \<le> image_y moved \<and>
         image_y moved \<le> max (rect_height rect - Math_round (image_width moved * 0.75)) 0"
  using clamp_bounds [of "clientX ev - rect_left rect - off_x (dragOffsetRef s)"
      "rect_width rect" "image_width active"]
    clamp_bounds [of "clientY ev - rect_top rect - off_y (dragOffsetRef s)"
      "rect_height rect" "Math_round (image_width active * 0.75)"]
  by (simp add: onPointerMoveImage_active [OF assms])



section \<open>Facts about date keys and the filtered view\<close>

lemma char_of_eval:
  "char_of (n::nat) = c \<longleftrightarrow> n mod 256 = of_char c"
  "c = char_of (n::nat) \<longleftrightarrow> n mod 256 = of_char c"
proof -
  show "char_of n = c \<longleftrightarrow> n mod 256 = of_char c"
    by (simp add: char_of_eq_iff take_bit_eq_mod)
  then show "c = char_of n \<longleftrightarrow> n mod 256 = of_char c"
    by (simp only: eq_commute [of c])
qed

lemma js_includes_sublist: "js_includes hay needle \<longleftrightarrow> sublist needle hay"
  by (induction hay) (simp_all add: sublist_Cons_right)

lemma digit_char_inj: "a < 10 \<Longrightarrow> b < 10 \<Longrightarrow> char_of (48 + a :: nat) = char_of (48 + b) \<Longrightarrow> a = b"
  by simp

lemma digit_char_not_minus: "a < 10 \<Longrightarrow> char_of (48 + a :: nat) \<noteq> CHR ''-''"
  by (simp add: char_of_eq_iff take_bit_eq_mod)

lemma digits_not_minus: "CHR ''-'' \<notin> set (digits n)"
proof (induction n rule: digits.induct)
  case (1 n)
  show ?case
  proof (cases "n < 10")
    case True
    then show ?thesis using digit_char_not_minus [of n] by (subst digits.simps) auto
  next
    case False
    then show ?thesis using 1 digit_char_not_minus [of "n mod 10"]
      by (subst digits.simps) auto
  qed
qed

lemma digits_nonempty: "digits n \<noteq> []"
  by (subst digits.simps) simp

lemma digits_inj: "digits a = digits b \<Longrightarrow> a = b"
proof (induction a arbitrary: b rule: digits.induct)
  case (1 a)
  show ?case
  proof (cases "a < 10")
    case True
    then have da: "digits a = [char_of (48 + a)]" by (subst digits.simps) simp
    show ?thesis
    proof (cases "b < 10")
      case b: True
      then have "digits b = [char_of (48 + b)]" by (subst digits.simps) simp
      with da "1.prems" True b show ?thesis using digit_char_inj by simp
    next
      case b: False
      then have "digits b = digits (b div 10) @ [char_of (48 + b mod 10)]"
        by (subst digits.simps) simp
      with da "1.prems" digits_nonempty [of "b div 10"] show ?thesis by simp
    qed
  next
    case False
    then have da: "digits a = digits (a div 10) @ [char_of (48 + a mod 10)]"
      by (subst digits.simps) simp
    show ?thesis
    proof (cases "b < 10")
      case b: True
      then have "digits b = [char_of (48 + b)]" by (subst digits.simps) simp
      with da "1.prems" digits_nonempty [of "a div 10"] show ?thesis by simp
    next
      case b: False
      then have db: "digits b = digits (b div 10) @ [char_of (48 + b mod 10)]"
        by (subst digits.simps) simp
      from da db "1.prems" have eq: "digits (a div 10) = digits (b div 10)"
        and last: "char_of (48 + a mod 10) = char_of (48 + b mod 10)" by simp_all
      from "1.IH" [OF False eq] have "a div 10 = b div 10" .
      moreover from last have "a mod 10 = b mod 10"
        using digit_char_inj [of "a mod 10" "b mod 10"] by simp
      ultimately show ?thesis by (metis div_mult_mod_eq)
    qed
  qed
qed


lemma digits_leading: "0 < n \<Longrightarrow> hd (digits n) \<noteq> CHR ''0''"
proof (induction n rule: digits.induct)
  case (1 n)
  show ?case
  proof (cases "n < 10")
    case True
    with "1.prems" show ?thesis
      by (subst digits.simps) (simp add: char_of_eq_iff take_bit_eq_mod)
  next
    case False
    then have "0 < n div 10" by simp
    with 1 False have "hd (digits (n div 10)) \<noteq> CHR ''0''" by simp
    with False digits_nonempty [of "n div 10"] show ?thesis
      by (subst digits.simps) simp
  qed
qed

lemma digits_length: "10 \<le> n \<Longrightarrow> 2 \<le> length (digits n)"
  using digits_nonempty [of "n div 10"]
  by (subst digits.simps) (simp add: Suc_le_eq)

lemma digits_small: "n < 10 \<Longrightarrow> digits n = [char_of (48 + n)]"
  by (subst digits.simps) simp

lemma padStart2_digits:
  "padStart2 (digits n) = (if n < 10 then [CHR ''0'', char_of (48 + n)] else digits n)"
  using digits_length [of n] by (simp add: padStart2_def digits_small)

lemma padStart2_digits_inj: "padStart2 (digits a) = padStart2 (digits b) \<Longrightarrow> a = b"
proof -
  assume eq: "padStart2 (digits a) = padStart2 (digits b)"
  consider "a < 10" "b < 10" | "a < 10" "10 \<le> b" | "10 \<le> a" "b < 10" | "10 \<le> a" "10 \<le> b"
    by linarith
  then show ?thesis
  proof cases
    case 1
    with eq show ?thesis by (simp add: padStart2_digits)
  next
    case 2
    with eq have "digits b = [CHR ''0'', char_of (48 + a)]" by (simp add: padStart2_digits)
    then have "hd (digits b) = CHR ''0''" by simp
    with 2 digits_leading [of b] show ?thesis by simp
  next
    case 3
    with eq have "digits a = [CHR ''0'', char_of (48 + b)]" by (simp add: padStart2_digits)
    then have "hd (digits a) = CHR ''0''" by simp
    with 3 digits_leading [of a] show ?thesis by simp
  next
    case 4
    with eq show ?thesis by (simp add: padStart2_digits digits_inj)
  qed
qed

lemma padStart2_digits_not_minus: "CHR ''-'' \<notin> set (padStart2 (digits n))"
  using digits_not_minus [of n] by (simp add: padStart2_def)

lemma String_of_int_inj: "String_of_int i = String_of_int j \<Longrightarrow> i = j"
proof -
  assume eq: "String_of_int i = String_of_int j"
  have pos: "hd (digits n) \<noteq> CHR ''-''" for n
    using digits_not_minus [of n] digits_nonempty [of n] by (cases "digits n") auto
  consider "i < 0" "j < 0" | "i < 0" "0 \<le> j" | "0 \<le> i" "j < 0" | "0 \<le> i" "0 \<le> j"
    by linarith
  then show ?thesis
  proof cases
    case 1
    with eq have "nat (- i) = nat (- j)" by (simp add: String_of_int_def digits_inj)
    with 1 show ?thesis by simp
  next
    case 2
    with eq have "digits (nat j) = CHR ''-'' # digits (nat (- i))" by (simp add: String_of_int_def)
    then have "hd (digits (nat j)) = CHR ''-''" by simp
    with pos show ?thesis by simp
  next
    case 3
    with eq have "digits (nat i) = CHR ''-'' # digits (nat (- j))" by (simp add: String_of_int_def)
    then have "hd (digits (nat i)) = CHR ''-''" by simp
    with pos show ?thesis by simp
  next
    case 4
    with eq have "nat i = nat j" by (simp add: String_of_int_def digits_inj)
    with 4 show ?thesis by simp
  qed
qed

lemma separator_unique:
  "c \<notin> set xs \<Longrightarrow> c \<notin> set xs' \<Longrightarrow> xs @ c # ys = xs' @ c # ys' \<Longrightarrow> xs = xs' \<and> ys = ys'"
proof (induction xs arbitrary: xs')
  case Nil
  then show ?case by (cases xs') auto
next
  case (Cons x xs)
  then show ?case by (cases xs') auto
qed

lemma toDateKey_rev:
  "rev (toDateKey d) =
     rev (padStart2 (digits (getDate d))) @ CHR ''-'' #
       (rev (padStart2 (digits (getMonth d + 1))) @ CHR ''-'' # rev (String_of_int (getFullYear d)))"
  by (simp add: toDateKey_def Let_def)

lemma toDateKey_inj:
  "toDateKey d = toDateKey d' \<longleftrightarrow>
     getFullYear d = getFullYear d' \<and> getMonth d = getMonth d' \<and> getDate d = getDate d'"
proof
  assume "toDateKey d = toDateKey d'"
  then have "rev (toDateKey d) = rev (toDateKey d')" by simp
  then have eq: "rev (padStart2 (digits (getDate d))) @ CHR ''-'' #
       (rev (padStart2 (digits (getMonth d + 1))) @ CHR ''-'' # rev (String_of_int (getFullYear d)))
     = rev (padStart2 (digits (getDate d'))) @ CHR ''-'' #
       (rev (padStart2 (digits (getMonth d' + 1))) @ CHR ''-'' # rev (String_of_int (getFullYear d')))"
    by (simp only: toDateKey_rev)
  have day: "rev (padStart2 (digits (getDate d))) = rev (padStart2 (digits (getDate d')))"
    and rest: "rev (padStart2 (digits (getMonth d + 1))) @ CHR ''-'' # rev (String_of_int (getFullYear d))
      = rev (padStart2 (digits (getMonth d' + 1))) @ CHR ''-'' # rev (String_of_int (getFullYear d'))"
    using separator_unique [OF _ _ eq] padStart2_digits_not_minus by simp_all
  have month: "rev (padStart2 (digits (getMonth d + 1))) = rev (padStart2 (digits (getMonth d' + 1)))"
    and year: "rev (String_of_int (getFullYear d)) = rev (String_of_int (getFullYear d'))"
    using separator_unique [OF _ _ rest] padStart2_digits_not_minus by simp_all
  from day have "getDate d = getDate d'" by (simp add: padStart2_digits_inj)
  moreover have "getMonth d + 1 = getMonth d' + 1"
  proof (rule padStart2_digits_inj)
    from month show "padStart2 (digits (getMonth d + 1)) = padStart2 (digits (getMonth d' + 1))"
      by simp
  qed
  moreover from year have "getFullYear d = getFullYear d'" by (simp add: String_of_int_inj)
  ultimately show "getFullYear d = getFullYear d' \<and> getMonth d = getMonth d' \<and> getDate d = getDate d'"
    by simp
next
  assume "getFullYear d = getFullYear d' \<and> getMonth d = getMonth d' \<and> getDate d = getDate d'"
  then show "toDateKey d = toDateKey d'" by (simp add: toDateKey_def)
qed

lemma toDateKey_nonempty: "toDateKey d \<noteq> []"
  by (simp add: toDateKey_def Let_def)

lemma toLowerCase_empty: "toLowerCase s = [] \<longleftrightarrow> s = []"
  by (simp add: toLowerCase_def)


lemma digits_numeral:
  "digits (numeral k) =
     (if numeral k < (10::nat) then [char_of (48 + numeral k :: nat)]
      else digits (numeral k div 10) @ [char_of (48 + numeral k mod 10 :: nat)])"
  by (rule digits.simps)


text \<open>
  C4. For every entry list, query and optional selected day (the key of the selection is
  \<open>toDateKey\<close> of the day the user clicked), the filtered view is the entry list, in its
  order, restricted to the entries that pass both filters. The date filter: no day is
  selected, or \<^verbatim>\<open>new Date(dateLabel)\<close> is a valid date (its time value is not
  \<^verbatim>\<open>NaN\<close>) with the year, month and day of the selected day; a label that does not
  parse to a valid date never passes when a day is selected. The text
  filter: the trimmed query is empty, or the trimmed query in lower case is a substring of
  the title, the content or some badge label in lower case.
\<close>

theorem filteredEntries_spec:
  assumes "selectedDateKey s = map_option toDateKey selected"
  shows "filteredEntries new_Date s =
     filter
       (\<lambda>entry.
          (case selected of
             None \<Rightarrow> True
           | Some day \<Rightarrow>
               getTime (new_Date (dateLabel entry)) \<noteq> None \<and>
               getFullYear (new_Date (dateLabel entry)) = getFullYear day \<and>
               getMonth (new_Date (dateLabel entry)) = getMonth day \<and>
               getDate (new_Date (dateLabel entry)) = getDate day) \<and>
          (trim (query s) = [] \<or>
           sublist (toLowerCase (trim (query s))) (toLowerCase (entry_title entry)) \<or>
           sublist (toLowerCase (trim (query s))) (toLowerCase (entry_content entry)) \<or>
           (\<exists>badge \<in> set (badges entry).
              sublist (toLowerCase (trim (query s))) (toLowerCase (label badge)))))
       (entries s)"
proof (cases selected)
  case None
  with assms have "selectedDateKey s = None" by simp
  with None show ?thesis
    by (auto simp add: filteredEntries_def Let_def js_includes_sublist list_ex_iff
        toLowerCase_empty intro!: filter_cong)
next
  case (Some day)
  with assms have key: "selectedDateKey s = Some (toDateKey day)" by simp
  show ?thesis
    unfolding filteredEntries_def Let_def key Some
    by (rule filter_cong)
       (auto simp add: parseDateLabel_def Let_def js_includes_sublist list_ex_iff
          toLowerCase_empty toDateKey_nonempty toDateKey_inj split: option.splits if_splits)
qed



theorem filteredEntries_spec_witness:
  "map entry_id (filteredEntries sampleNewDate sampleBrowse) = [1]"
proof -
  have key: "selectedDateKey sampleBrowse =
      map_option toDateKey
        (Some \<lparr>getTime = None, getFullYear = 2024, getMonth = 0, getDate = 5\<rparr>)"
    by (simp add: sampleBrowse_def toDateKey_def String_of_int_def padStart2_def digits_numeral
        digits_small char_of_eval)
  have lower: "toLowerCase (trim (query sampleBrowse)) = ''gym''"
    by (simp add: sampleBrowse_def trim_def isWhiteSpace_def toLowerCase_def lowerChar_def
        char_of_eval)
  show ?thesis
    unfolding filteredEntries_spec [OF key, of sampleNewDate] lower
    by (simp add: sampleBrowse_def initialApp_def sampleEntry_def sampleNewDate_def
        trim_def isWhiteSpace_def toLowerCase_def lowerChar_def
        char_of_eval sublist_Cons_right)
qed

section \<open>Facts about the scan template\<close>

lemma find_filter: "find P xs = (case filter P xs of [] \<Rightarrow> None | x # _ \<Rightarrow> Some x)"
  by (induction xs) auto

lemma js_join_take2_empty:
  "\<forall>l \<in> set ls. l \<noteq> [] \<Longrightarrow> js_join sep (take 2 ls) = [] \<longleftrightarrow> ls = []"
proof (cases ls)
  case Nil
  then show ?thesis by simp
next
  case (Cons a as)
  assume ne: "\<forall>l \<in> set ls. l \<noteq> []"
  with Cons show ?thesis by (cases as) (auto simp: numeral_2_eq_2)
qed

lemma scannedLines_nonempty: "\<forall>l \<in> set (scannedLines rawText). l \<noteq> []"
  by (simp add: scannedLines_def)

lemma getScannedTitle_lines:
  "getScannedTitle (cleanedText rawText) =
     (case scannedLines rawText of
        [] \<Rightarrow> ''Scanned Memory''
      | l # _ \<Rightarrow> if length l > 64 then trim (take 64 l) @ ''...'' else l)"
  by (auto simp add: getScannedTitle_def scannedLines_def find_filter Let_def
      split: list.splits dest: filter_eq_ConsD)

lemma whiteSpaceBeforeNewline_Cons:
  "whiteSpaceBeforeNewline (a # t) \<longleftrightarrow>
     (isWhiteSpace a \<and> (\<exists>t'. t = nl # t')) \<or> whiteSpaceBeforeNewline t"
  by (cases t) auto

lemma rev_dropWhile_takeWhile: "rev (dropWhile P (rev xs)) @ rev (takeWhile P (rev xs)) = xs"
proof -
  have "rev (takeWhile P (rev xs) @ dropWhile P (rev xs)) = xs" by simp
  then show ?thesis by (simp only: rev_append)
qed

lemma upToLastNewline_split:
  "wsrun = upToLastNewline wsrun @ drop (length (upToLastNewline wsrun)) wsrun \<and>
   nl \<notin> set (drop (length (upToLastNewline wsrun)) wsrun)"
proof -
  have split: "wsrun = upToLastNewline wsrun @ rev (takeWhile (\<lambda>c. c \<noteq> nl) (rev wsrun))"
    by (simp only: upToLastNewline_def rev_dropWhile_takeWhile)
  then have "drop (length (upToLastNewline wsrun)) wsrun = rev (takeWhile (\<lambda>c. c \<noteq> nl) (rev wsrun))"
    by (metis append_eq_conv_conj)
  moreover have "nl \<notin> set (rev (takeWhile (\<lambda>c. c \<noteq> nl) (rev wsrun)))"
    by (auto dest: set_takeWhileD)
  ultimately show ?thesis using split by simp
qed

lemma upToLastNewline_nonempty: "upToLastNewline wsrun \<noteq> [] \<longleftrightarrow> nl \<in> set wsrun"
  by (auto simp add: upToLastNewline_def)

lemma takeWhile_dropWhile_Nil: "takeWhile P (dropWhile P xs) = []"
  by (induction xs) auto

lemma takeWhile_after_match:
  "nl \<notin> set (takeWhile isWhiteSpace
              (drop (length (upToLastNewline (takeWhile isWhiteSpace cs))) cs))"
proof -
  define wsrun where "wsrun = takeWhile isWhiteSpace cs"
  define q where "q = drop (length (upToLastNewline wsrun)) wsrun"
  have wsrun: "wsrun = upToLastNewline wsrun @ q" and q: "nl \<notin> set q"
    using upToLastNewline_split [of wsrun] by (simp_all add: q_def)
  have "cs = wsrun @ dropWhile isWhiteSpace cs" by (simp add: wsrun_def)
  then have "cs = upToLastNewline wsrun @ (q @ dropWhile isWhiteSpace cs)"
    using wsrun by (metis append_assoc)
  then have "drop (length (upToLastNewline wsrun)) cs = q @ dropWhile isWhiteSpace cs"
    by (metis append_eq_conv_conj)
  moreover have "\<forall>x \<in> set q. isWhiteSpace x"
    unfolding q_def wsrun_def by (auto dest!: in_set_dropD set_takeWhileD)
  ultimately have "takeWhile isWhiteSpace (drop (length (upToLastNewline wsrun)) cs) = q"
    by (simp add: takeWhile_dropWhile_Nil)
  with q show ?thesis by (simp add: wsrun_def)
qed

lemma replaceSpaceNewline_head:
  "replaceSpaceNewline s = nl # t \<Longrightarrow> nl \<in> set (takeWhile isWhiteSpace s)"
proof (cases s)
  case Nil
  assume "replaceSpaceNewline s = nl # t"
  with Nil show ?thesis by simp
next
  case (Cons c cs)
  assume r: "replaceSpaceNewline s = nl # t"
  show ?thesis
  proof (cases "isWhiteSpace c \<and> upToLastNewline (takeWhile isWhiteSpace cs) \<noteq> []")
    case True
    then show ?thesis using Cons by (simp add: upToLastNewline_nonempty)
  next
    case False
    with r Cons have "c = nl" by (simp split: if_splits)
    then show ?thesis using Cons by (simp add: isWhiteSpace_def)
  qed
qed

lemma replaceSpaceNewline_clean: "\<not> whiteSpaceBeforeNewline (replaceSpaceNewline s)"
proof (induction s rule: replaceSpaceNewline.induct)
  case 1
  show ?case by simp
next
  case (2 c cs)
  show ?case
  proof (cases "isWhiteSpace c \<and> upToLastNewline (takeWhile isWhiteSpace cs) \<noteq> []")
    case True
    define r where "r = drop (length (upToLastNewline (takeWhile isWhiteSpace cs))) cs"
    from True have eq: "replaceSpaceNewline (c # cs) = nl # replaceSpaceNewline r"
      by (simp add: r_def)
    have "\<not> whiteSpaceBeforeNewline (replaceSpaceNewline r)"
      using "2.IH"(1) True by (simp add: r_def)
    moreover have "\<nexists>t'. replaceSpaceNewline r = nl # t'"
      using replaceSpaceNewline_head [of r] takeWhile_after_match [of cs] by (auto simp: r_def)
    ultimately show ?thesis
      unfolding eq by (simp add: whiteSpaceBeforeNewline_Cons)
  next
    case False
    then have eq: "replaceSpaceNewline (c # cs) = c # replaceSpaceNewline cs"
      by auto
    have ih: "\<not> whiteSpaceBeforeNewline (replaceSpaceNewline cs)"
      using "2.IH"(2) False by simp
    have "\<not> (isWhiteSpace c \<and> (\<exists>t'. replaceSpaceNewline cs = nl # t'))"
    proof
      assume a: "isWhiteSpace c \<and> (\<exists>t'. replaceSpaceNewline cs = nl # t')"
      then have "nl \<in> set (takeWhile isWhiteSpace cs)"
        using replaceSpaceNewline_head by blast
      with a False show False by (simp add: upToLastNewline_nonempty)
    qed
    with ih show ?thesis
      unfolding eq by (simp add: whiteSpaceBeforeNewline_Cons)
  qed
qed

lemma replaceNewlines_id: "\<not> whiteSpaceBeforeNewline s \<Longrightarrow> replaceNewlines s = s"
proof (induction s)
  case Nil
  show ?case by simp
next
  case (Cons c cs)
  from Cons.prems have tail: "\<not> whiteSpaceBeforeNewline cs"
    and head: "\<not> (isWhiteSpace c \<and> (\<exists>t'. cs = nl # t'))"
    by (simp_all add: whiteSpaceBeforeNewline_Cons)
  have "\<not> (c = nl \<and> 2 \<le> length (takeWhile (\<lambda>d. d = nl) cs))"
  proof
    assume a: "c = nl \<and> 2 \<le> length (takeWhile (\<lambda>d. d = nl) cs)"
    then obtain d ds where "cs = d # ds" by (cases cs) auto
    with a have "cs = nl # ds" by (auto split: if_splits)
    with a head show False by (simp add: isWhiteSpace_def)
  qed
  then show ?case using Cons.IH [OF tail] by auto
qed

lemma whiteSpaceBeforeNewline_append_left:
  "whiteSpaceBeforeNewline xs \<Longrightarrow> whiteSpaceBeforeNewline (ys @ xs)"
  by (induction ys) (auto simp: whiteSpaceBeforeNewline_Cons)

lemma whiteSpaceBeforeNewline_append_right:
  "whiteSpaceBeforeNewline xs \<Longrightarrow> whiteSpaceBeforeNewline (xs @ zs)"
  by (induction xs rule: whiteSpaceBeforeNewline.induct) (auto simp: whiteSpaceBeforeNewline_Cons)

lemma trim_sublist: "\<exists>a b. s = a @ trim s @ b"
proof -
  define d where "d = dropWhile isWhiteSpace s"
  have "d = trim s @ rev (takeWhile isWhiteSpace (rev d))"
    by (simp only: trim_def d_def rev_dropWhile_takeWhile)
  moreover have "s = takeWhile isWhiteSpace s @ d" by (simp add: d_def)
  ultimately show ?thesis by metis
qed

lemma trim_clean: "\<not> whiteSpaceBeforeNewline s \<Longrightarrow> \<not> whiteSpaceBeforeNewline (trim s)"
proof
  assume clean: "\<not> whiteSpaceBeforeNewline s" and "whiteSpaceBeforeNewline (trim s)"
  then have "whiteSpaceBeforeNewline (a @ trim s @ b)" for a b
    by (simp add: whiteSpaceBeforeNewline_append_left whiteSpaceBeforeNewline_append_right)
  with trim_sublist [of s] clean show False by metis
qed

lemma cleanedText_clean: "\<not> whiteSpaceBeforeNewline (cleanedText rawText)"
  by (simp add: cleanedText_def replaceNewlines_id replaceSpaceNewline_clean trim_clean)

lemma spaceBeforeNewline_weaker: "spaceBeforeNewline s \<Longrightarrow> whiteSpaceBeforeNewline s"
  by (induction s rule: spaceBeforeNewline.induct) auto


lemma trim_idem: "trim (trim s) = trim s"
proof -
  have a: "dropWhile isWhiteSpace (rev (dropWhile isWhiteSpace (rev ys))) =
           rev (dropWhile isWhiteSpace (rev ys))"
    if "dropWhile isWhiteSpace ys = ys" for ys
  proof (cases "rev (dropWhile isWhiteSpace (rev ys))")
    case Nil
    show ?thesis by (simp only: Nil dropWhile.simps)
  next
    case (Cons z zs)
    then have "ys \<noteq> []" by auto
    then obtain y ys' where ys: "ys = y # ys'" by (cases ys) auto
    have "\<not> isWhiteSpace y"
    proof
      assume "isWhiteSpace y"
      with that ys have "dropWhile isWhiteSpace ys' = y # ys'" by simp
      then have "length (dropWhile isWhiteSpace ys') = Suc (length ys')" by simp
      with length_dropWhile_le [of isWhiteSpace ys'] show False by simp
    qed
    have "ys = rev (dropWhile isWhiteSpace (rev ys)) @ rev (takeWhile isWhiteSpace (rev ys))"
      by (simp only: rev_dropWhile_takeWhile)
    with Cons ys have "z = y" by simp
    with \<open>\<not> isWhiteSpace y\<close> Cons show ?thesis by simp
  qed
  have "dropWhile isWhiteSpace (dropWhile isWhiteSpace s) = dropWhile isWhiteSpace s"
    by (simp add: dropWhile_idem)
  from a [OF this] show ?thesis
    by (simp add: trim_def)
qed

lemma cleaned_lake:
  "cleanedText lakeText = ''Trip to the lake'' @ [nl] @ ''Saw a heron'' @ [nl] @ ''Great day''"
  by (simp add: cleanedText_def lakeText_def trim_def isWhiteSpace_def upToLastNewline_def)

lemma lines_lake: "scannedLines lakeText = [''Trip to the lake'', ''Saw a heron'', ''Great day'']"
  by (simp add: scannedLines_def cleaned_lake trim_def isWhiteSpace_def)

lemma lines_long: "scannedLines longLine = [longLine]"
  by (simp add: scannedLines_def cleanedText_def longLine_def trim_def isWhiteSpace_def
      upToLastNewline_def numeral_eq_Suc)


lemma cleanedText_trimmed: "trim (cleanedText rawText) = cleanedText rawText"
  by (simp add: cleanedText_def trim_idem)

text \<open>
  C5 (amended). For every raw text, the cleaned text is trimmed and has no trailing space
  before a line feed; the lines are its pieces between line feeds, trimmed, the empty ones
  dropped; the content is the fixed document whose summary is the first two lines joined
  by a space (or the no-summary placeholder when there is no line), whose highlights are
  the first five lines as a bulleted list (or the no-highlights placeholder line) and
  whose last section is the cleaned text (or its placeholder); the title is the first
  line, or, when that is longer than 64 characters, its first 64 characters, trimmed,
  followed by \<open>...\<close>, or \<open>Scanned Memory\<close> when there is no line. The text of the scan
  scenario yields the title \<open>Trip to the lake\<close> and the summary
  \<open>Trip to the lake Saw a heron\<close>.
\<close>

theorem buildScannedTemplate_spec:
  "scannedLines rawText =
     filter (\<lambda>line. line \<noteq> []) (map trim (js_split nl (cleanedText rawText))) \<and>
   trim (cleanedText rawText) = cleanedText rawText \<and>
   \<not> spaceBeforeNewline (cleanedText rawText) \<and>
   template_content (buildScannedTemplate rawText) =
     js_join [nl]
       ([''SCANNED JOURNAL'', [], ''Summary:'',
         if scannedLines rawText = [] then ''No clear summary detected from the image.''
         else js_join '' '' (take 2 (scannedLines rawText)),
         [], ''Highlights:''] @
        (if scannedLines rawText = [] then [''- No highlights detected.'']
         else map (\<lambda>line. ''- '' @ line) (take 5 (scannedLines rawText))) @
        [[], ''Extracted Text:'',
         if cleanedText rawText = [] then ''No readable text found in this image.''
         else cleanedText rawText]) \<and>
   template_title (buildScannedTemplate rawText) =
     (case scannedLines rawText of
        [] \<Rightarrow> ''Scanned Memory''
      | line # _ \<Rightarrow> if length line > 64 then trim (take 64 line) @ ''...'' else line) \<and>
   template_title (buildScannedTemplate lakeText) = ''Trip to the lake'' \<and>
   js_join '' '' (take 2 (scannedLines lakeText)) = ''Trip to the lake Saw a heron''"
proof -
  have lines: "scannedLines rawText =
      filter (\<lambda>line. line \<noteq> []) (map trim (js_split nl (cleanedText rawText)))"
    by (simp add: scannedLines_def)
  have clean: "\<not> spaceBeforeNewline (cleanedText rawText)"
    using cleanedText_clean spaceBeforeNewline_weaker by blast
  have summary: "or_else (js_join '' '' (take 2 (scannedLines rawText)))
        ''No clear summary detected from the image.'' =
      (if scannedLines rawText = [] then ''No clear summary detected from the image.''
       else js_join '' '' (take 2 (scannedLines rawText)))"
    using js_join_take2_empty [OF scannedLines_nonempty, of "'' ''" rawText]
    by (simp add: or_else_def)
  have content: "template_content (buildScannedTemplate rawText) =
     js_join [nl]
       ([''SCANNED JOURNAL'', [], ''Summary:'',
         if scannedLines rawText = [] then ''No clear summary detected from the image.''
         else js_join '' '' (take 2 (scannedLines rawText)),
         [], ''Highlights:''] @
        (if scannedLines rawText = [] then [''- No highlights detected.'']
         else map (\<lambda>line. ''- '' @ line) (take 5 (scannedLines rawText))) @
        [[], ''Extracted Text:'',
         if cleanedText rawText = [] then ''No readable text found in this image.''
         else cleanedText rawText])"
    unfolding buildScannedTemplate_def Let_def summary
    by (simp add: or_else_def)
  have title: "template_title (buildScannedTemplate t) =
     (case scannedLines t of
        [] \<Rightarrow> ''Scanned Memory''
      | line # _ \<Rightarrow> if length line > 64 then trim (take 64 line) @ ''...'' else line)" for t
    by (simp add: buildScannedTemplate_def Let_def getScannedTitle_lines)
  have lake_title: "template_title (buildScannedTemplate lakeText) = ''Trip to the lake''"
    by (simp add: title lines_lake)
  have lake_summary: "js_join '' '' (take 2 (scannedLines lakeText)) = ''Trip to the lake Saw a heron''"
    by (simp add: lines_lake numeral_2_eq_2)
  from lines cleanedText_trimmed clean content title lake_title lake_summary show ?thesis
    by (intro conjI)
qed

theorem buildScannedTemplate_spec_witness:
  "template_title (buildScannedTemplate longLine) = replicate 63 (CHR ''a'') @ ''...''"
  using buildScannedTemplate_spec [of longLine]
  by (simp add: lines_long) (simp add: longLine_def trim_def isWhiteSpace_def numeral_eq_Suc)

text \<open>
  C5 as stated fails at the text of its own scenario, where the run of three line feeds
  becomes one line feed and no blank line is left, and at a first line with a space at
  position 64, where the truncated title has 63 characters before the ellipsis.
\<close>

theorem buildScannedTemplate_counterexample:
  "cleanedText lakeText = ''Trip to the lake'' @ [nl] @ ''Saw a heron'' @ [nl] @ ''Great day'' \<and>
   cleanedText lakeText \<noteq> ''Trip to the lake'' @ [nl] @ ''Saw a heron'' @ [nl, nl] @ ''Great day'' \<and>
   template_title (buildScannedTemplate longLine) = replicate 63 (CHR ''a'') @ ''...'' \<and>
   template_title (buildScannedTemplate longLine) \<noteq> take 64 longLine @ ''...''"
proof -
  have "template_title (buildScannedTemplate longLine) = replicate 63 (CHR ''a'') @ ''...''"
    by (simp add: buildScannedTemplate_def Let_def getScannedTitle_lines lines_long)
       (simp add: longLine_def trim_def isWhiteSpace_def numeral_eq_Suc)
  moreover have "replicate 63 (CHR ''a'') @ ''...'' \<noteq> take 64 longLine @ ''...''"
    by (simp add: longLine_def numeral_eq_Suc)
  ultimately show ?thesis
    by (simp add: cleaned_lake)
qed

section \<open>Facts about the OCR route\<close>

lemma tryModels_first_success:
  assumes "\<forall>m \<in> set pre. \<exists>r. callGemini fetch apiKey m mime data = Fetched r \<and> \<not> resp_ok r"
      and "callGemini fetch apiKey model mime data = Fetched response"
      and "resp_ok response"
      and "decodePayload (resp_body response) = Some payload"
  shows "tryModels fetch decodePayload decodeError apiKey mime data (pre @ model # post) lastError =
     (Inr \<lparr>status = 200, json_body = TextBody (extractText payload)\<rparr>, pre @ [model])"
  using assms by (induction pre arbitrary: lastError) auto









lemma extractText_first:
  "candidates payload = Some (c # cs) \<Longrightarrow> candidate_content c = Some ct \<Longrightarrow> parts ct = Some ps \<Longrightarrow>
   extractText payload =
     trim (js_join [nl] (map (\<lambda>part. case part_text part of None \<Rightarrow> [] | Some t \<Rightarrow> t) ps))"
  by (simp add: extractText_def)

lemma trim_Nil: "trim [] = []"
  by (simp add: trim_def)

lemma extractText_none:
  "candidates payload = None \<or> candidates payload = Some [] \<or>
   (\<exists>c cs. candidates payload = Some (c # cs) \<and>
      (candidate_content c = None \<or> (\<exists>ct. candidate_content c = Some ct \<and> parts ct = None))) \<Longrightarrow>
   extractText payload = []"
  by (auto simp add: extractText_def trim_Nil)

text \<open>
  C9 (amended). With a key and both request fields, when the attempts before some configured
  model come back not ok and the attempt with that model comes back ok with a payload, the
  route has called the models in their order up to that one and responds 200 with
  \<open>{text}\<close>, where the text is taken from the first candidate of the payload only: the
  texts of its parts (the empty string for a part without text), joined by line feeds and
  trimmed; the text is empty when there is no candidate, or the first one has no content or
  no parts. Further candidates are not read.
\<close>

theorem POST_first_success:
  assumes "apiKey \<noteq> []" and "mime \<noteq> []" and "data \<noteq> []"
      and "models = pre @ model # post"
      and "\<forall>m \<in> set pre. \<exists>r. callGemini fetch apiKey m mime data = Fetched r \<and> \<not> resp_ok r"
      and "callGemini fetch apiKey model mime data = Fetched response"
      and "resp_ok response"
      and "decodePayload (resp_body response) = Some payload"
  shows "POST (Some apiKey) (JsonBody \<lparr>mimeType = Some mime, base64 = Some data\<rparr>)
              fetch decodePayload decodeError =
           (Inr \<lparr>status = 200, json_body = TextBody (extractText payload)\<rparr>, pre @ [model]) \<and>
         (\<forall>c cs ct ps.
            candidates payload = Some (c # cs) \<and> candidate_content c = Some ct \<and>
            parts ct = Some ps \<longrightarrow>
              extractText payload =
                trim (js_join [nl]
                        (map (\<lambda>part. case part_text part of None \<Rightarrow> [] | Some t \<Rightarrow> t) ps))) \<and>
         (candidates payload = None \<or> candidates payload = Some [] \<or>
          (\<exists>c cs. candidates payload = Some (c # cs) \<and>
             (candidate_content c = None \<or>
              (\<exists>ct. candidate_content c = Some ct \<and> parts ct = None))) \<longrightarrow>
            extractText payload = [])"
proof -
  have "tryModels fetch decodePayload decodeError apiKey mime data models None =
      (Inr \<lparr>status = 200, json_body = TextBody (extractText payload)\<rparr>, pre @ [model])"
    unfolding assms(4) using assms(5-8) by (rule tryModels_first_success)
  with assms(1-3) have reply:
    "POST (Some apiKey) (JsonBody \<lparr>mimeType = Some mime, base64 = Some data\<rparr>)
          fetch decodePayload decodeError =
       (Inr \<lparr>status = 200, json_body = TextBody (extractText payload)\<rparr>, pre @ [model])"
    by (simp add: POST_def Let_def)
  from reply extractText_first [of payload] extractText_none [of payload] show ?thesis
    by blast
qed

theorem POST_first_success_witness:
  "POST (Some ''k'') sampleRequest secondFetch samplePayload sampleError =
     (Inr \<lparr>status = 200, json_body = TextBody (''first '' @ [nl, nl] @ ''page'')\<rparr>,
      [''gemini-2.5-flash'', ''gemini-2.0-flash''])"
proof -
  have "POST (Some ''k'') (JsonBody \<lparr>mimeType = Some ''image/png'', base64 = Some ''AAAA''\<rparr>)
          secondFetch samplePayload sampleError =
       (Inr \<lparr>status = 200, json_body = TextBody (extractText twoCandidates)\<rparr>,
        [''gemini-2.5-flash''] @ [''gemini-2.0-flash'']) \<and>
     (\<forall>c cs ct ps.
        candidates twoCandidates = Some (c # cs) \<and> candidate_content c = Some ct \<and>
        parts ct = Some ps \<longrightarrow>
          extractText twoCandidates =
            trim (js_join [nl]
                    (map (\<lambda>part. case part_text part of None \<Rightarrow> [] | Some t \<Rightarrow> t) ps))) \<and>
     (candidates twoCandidates = None \<or> candidates twoCandidates = Some [] \<or>
      (\<exists>c cs. candidates twoCandidates = Some (c # cs) \<and>
         (candidate_content c = None \<or>
          (\<exists>ct. candidate_content c = Some ct \<and> parts ct = None))) \<longrightarrow>
        extractText twoCandidates = [])"
  proof (rule POST_first_success [where post = "[''gemini-flash-latest'']"
          and response = "\<lparr>resp_ok = True, resp_body = ''two''\<rparr>"])
    show "''k'' \<noteq> []" "''image/png'' \<noteq> []" "''AAAA'' \<noteq> []" by simp_all
    show "models = [''gemini-2.5-flash''] @ ''gemini-2.0-flash'' # [''gemini-flash-latest'']"
      by (simp add: models_def)
    show "\<forall>m \<in> set [''gemini-2.5-flash''].
        \<exists>r. callGemini secondFetch ''k'' m ''image/png'' ''AAAA'' = Fetched r \<and> \<not> resp_ok r"
      by (simp add: callGemini_def secondFetch_def)
    show "callGemini secondFetch ''k'' ''gemini-2.0-flash'' ''image/png'' ''AAAA'' =
        Fetched \<lparr>resp_ok = True, resp_body = ''two''\<rparr>"
      by (simp add: callGemini_def secondFetch_def)
    show "resp_ok \<lparr>resp_ok = True, resp_body = ''two''\<rparr>" by simp
    show "samplePayload (resp_body \<lparr>resp_ok = True, resp_body = ''two''\<rparr>) = Some twoCandidates"
      by (simp add: samplePayload_def)
  qed
  then show ?thesis
    by (simp add: sampleRequest_def extractText_def twoCandidates_def trim_def isWhiteSpace_def)
qed

text \<open>
  C9 as stated fails for a payload with two candidates: the text of the second candidate
  is not in the reply.
\<close>

theorem POST_first_success_counterexample:
  "POST (Some ''k'') sampleRequest secondFetch samplePayload sampleError =
     (Inr \<lparr>status = 200, json_body = TextBody (''first '' @ [nl, nl] @ ''page'')\<rparr>,
      [''gemini-2.5-flash'', ''gemini-2.0-flash'']) \<and>
   ''first '' @ [nl, nl] @ ''page'' \<noteq> trim (js_join [nl] [''first '', ''page'', ''second'']) \<and>
   ''first '' @ [nl, nl] @ ''page'' \<noteq> trim (js_join [nl] [''first '', [], ''page'', ''second''])"
  by (simp add: POST_def Let_def sampleRequest_def models_def callGemini_def secondFetch_def
      samplePayload_def extractText_def twoCandidates_def trim_def isWhiteSpace_def)

section \<open>Facts about persistence\<close>












section \<open>Facts about \<^verbatim>\<open>saveOpenEntryEdits\<close>\<close>

lemma saveOpenEntryEdits_None: "openEntry s = None \<Longrightarrow> saveOpenEntryEdits s = s"
  by (simp add: saveOpenEntryEdits_def)

lemma saveOpenEntryEdits_entries:
  "openEntry s = Some oe \<Longrightarrow>
   entries (saveOpenEntryEdits s) =
     map (\<lambda>entry. if entry_id entry = entry_id oe
                    then entry\<lparr>entry_title := or_else (trim (editingTitle s)) ''Untitled memory'',
                               entry_content := or_else (trim (editingContent s)) ''No notes added.''\<rparr>
                    else entry)
         (entries s)"
  by (simp add: saveOpenEntryEdits_def Let_def)

text \<open>
  C6. An update changes only the title and the content of the entries whose id is the id of
  the open entry: their id, date label, badges, images, notes and sticker stay, every other
  entry stays as it is, and when no entry has that id (or no entry is open) the store is
  unchanged.
\<close>

theorem saveOpenEntryEdits_frame:
  "length (entries (saveOpenEntryEdits s)) = length (entries s) \<and>
   (\<forall>i < length (entries s).
      entry_id (entries (saveOpenEntryEdits s) ! i) = entry_id (entries s ! i) \<and>
      dateLabel (entries (saveOpenEntryEdits s) ! i) = dateLabel (entries s ! i) \<and>
      badges (entries (saveOpenEntryEdits s) ! i) = badges (entries s ! i) \<and>
      images (entries (saveOpenEntryEdits s) ! i) = images (entries s ! i) \<and>
      entry_notes (entries (saveOpenEntryEdits s) ! i) = entry_notes (entries s ! i) \<and>
      sticker (entries (saveOpenEntryEdits s) ! i) = sticker (entries s ! i) \<and>
      ((\<forall>oe. openEntry s = Some oe \<longrightarrow> entry_id (entries s ! i) \<noteq> entry_id oe) \<longrightarrow>
         entries (saveOpenEntryEdits s) ! i = entries s ! i)) \<and>
   ((\<forall>oe. openEntry s = Some oe \<longrightarrow> (\<forall>e \<in> set (entries s). entry_id e \<noteq> entry_id oe)) \<longrightarrow>
      entries (saveOpenEntryEdits s) = entries s)"
proof (cases "openEntry s")
  case None
  then show ?thesis by (simp add: saveOpenEntryEdits_None)
next
  case (Some oe)
  note upd = saveOpenEntryEdits_entries [OF Some]
  have len: "length (entries (saveOpenEntryEdits s)) = length (entries s)"
    by (simp add: upd)
  have pointwise: "\<forall>i < length (entries s).
      entry_id (entries (saveOpenEntryEdits s) ! i) = entry_id (entries s ! i) \<and>
      dateLabel (entries (saveOpenEntryEdits s) ! i) = dateLabel (entries s ! i) \<and>
      badges (entries (saveOpenEntryEdits s) ! i) = badges (entries s ! i) \<and>
      images (entries (saveOpenEntryEdits s) ! i) = images (entries s ! i) \<and>
      entry_notes (entries (saveOpenEntryEdits s) ! i) = entry_notes (entries s ! i) \<and>
      sticker (entries (saveOpenEntryEdits s) ! i) = sticker (entries s ! i) \<and>
      ((\<forall>oe. openEntry s = Some oe \<longrightarrow> entry_id (entries s ! i) \<noteq> entry_id oe) \<longrightarrow>
         entries (saveOpenEntryEdits s) ! i = entries s ! i)"
    by (simp add: upd Some)
  have absent: "(\<forall>e \<in> set (entries s). entry_id e \<noteq> entry_id oe) \<Longrightarrow>
      entries (saveOpenEntryEdits s) = entries s"
    by (simp add: upd map_idI)
  from len pointwise absent show ?thesis
    by (simp add: Some)
qed

theorem saveOpenEntryEdits_frame_witness:
  "entries (saveOpenEntryEdits
      ((initialApp [sampleEntry 1 ''a'' ''b'', sampleEntry 2 ''c'' ''d''])
         \<lparr>openEntry := Some (sampleEntry 7 ''c'' ''d''), editingTitle := ''new''\<rparr>))
   = [sampleEntry 1 ''a'' ''b'', sampleEntry 2 ''c'' ''d'']"
  using saveOpenEntryEdits_frame
    [of "(initialApp [sampleEntry 1 ''a'' ''b'', sampleEntry 2 ''c'' ''d''])
           \<lparr>openEntry := Some (sampleEntry 7 ''c'' ''d''), editingTitle := ''new''\<rparr>"]
  by (simp add: initialApp_def sampleEntry_def)

text \<open>
  C10. Saving an edit never stores an empty title or content: in every entry the edit
  writes, the title is the trimmed edited title, or \<open>Untitled memory\<close> when that is empty,
  and the content is the trimmed edited content, or \<open>No notes added.\<close> when that is empty.
\<close>

theorem saveOpenEntryEdits_placeholders:
  "openEntry s = Some oe \<Longrightarrow> i < length (entries s) \<Longrightarrow>
   entry_id (entries s ! i) = entry_id oe \<Longrightarrow>
   entry_title (entries (saveOpenEntryEdits s) ! i) =
     (if trim (editingTitle s) = [] then ''Untitled memory'' else trim (editingTitle s)) \<and>
   entry_content (entries (saveOpenEntryEdits s) ! i) =
     (if trim (editingContent s) = [] then ''No notes added.'' else trim (editingContent s)) \<and>
   entry_title (entries (saveOpenEntryEdits s) ! i) \<noteq> [] \<and>
   entry_content (entries (saveOpenEntryEdits s) ! i) \<noteq> []"
  by (simp add: saveOpenEntryEdits_entries or_else_def)

theorem saveOpenEntryEdits_placeholders_witness:
  "entry_title (entries (saveOpenEntryEdits
      ((initialApp [sampleEntry 1 ''a'' ''b'', sampleEntry 2 ''c'' ''d''])
         \<lparr>openEntry := Some (sampleEntry 2 ''c'' ''d''), editingTitle := ''  '',
           editingContent := '' kept ''\<rparr>)) ! 1) = ''Untitled memory'' \<and>
   entry_content (entries (saveOpenEntryEdits
      ((initialApp [sampleEntry 1 ''a'' ''b'', sampleEntry 2 ''c'' ''d''])
         \<lparr>openEntry := Some (sampleEntry 2 ''c'' ''d''), editingTitle := ''  '',
           editingContent := '' kept ''\<rparr>)) ! 1) = ''kept''"
  using saveOpenEntryEdits_placeholders
    [of "(initialApp [sampleEntry 1 ''a'' ''b'', sampleEntry 2 ''c'' ''d''])
           \<lparr>openEntry := Some (sampleEntry 2 ''c'' ''d''), editingTitle := ''  '',
             editingContent := '' kept ''\<rparr>"
        "sampleEntry 2 ''c'' ''d''" 1]
  by (simp add: initialApp_def sampleEntry_def trim_def isWhiteSpace_def)

end
